theory Spec2Isabelle
  imports Complex_Main
begin

section \<open>Values of the travel-itinerary manager\<close>

text \<open>
  The program is a single Python module, \<^verbatim>\<open>aichatbot.py\<close>. Python is dynamically
  typed: the annotations of \<^verbatim>\<open>Destination.__init__\<close> are not enforced, and both
  \<^verbatim>\<open>from_dict\<close> and \<^verbatim>\<open>update_details\<close> store whatever value they are given. The
  fields of a destination are therefore values of a universe \<open>pyval\<close> that covers
  what \<^verbatim>\<open>json.load\<close> returns and what the interactive flows build.

  Strings are lists of 8-bit characters; \<^verbatim>\<open>str.lower\<close> and \<^verbatim>\<open>str.strip\<close> are
  modelled on ASCII letters and ASCII white space.
\<close>

subsection \<open>Floating-point numbers\<close>

text \<open>
  A Python \<^verbatim>\<open>float\<close> is a finite number, an infinity or a NaN. Only the comparison
  \<^verbatim>\<open>v <= 0\<close> is made on floats by this program; every comparison with a NaN is false.
\<close>

datatype pyfloat = NaN | NegInf | Finite rat | PosInf

fun float_le_zero :: "pyfloat \<Rightarrow> bool" where
  "float_le_zero NaN = False"
| "float_le_zero NegInf = True"
| "float_le_zero (Finite r) = (r \<le> 0)"
| "float_le_zero PosInf = False"

fun float_positive :: "pyfloat \<Rightarrow> bool" where
  "float_positive NaN = False"
| "float_positive NegInf = False"
| "float_positive (Finite r) = (0 < r)"
| "float_positive PosInf = True"

subsection \<open>Naive datetimes\<close>

record datetime =
  year :: nat
  month :: nat
  day :: nat
  hour :: nat
  minute :: nat
  second :: nat
  microsecond :: nat

subsection \<open>Dynamic values and exceptions\<close>

datatype pyval =
    PNone
  | PBool bool
  | PInt int
  | PFloat pyfloat
  | PStr string
  | PDatetime datetime
  | PList "pyval list"
  | PDict "(string \<times> pyval) list"

text \<open>
  Exceptions are values. The two messages that the source itself writes are kept
  verbatim; the exceptions raised by the interpreter and the standard library carry the
  information that identifies them.
\<close>

datatype exn =
    AttributeError string
  | ValueError string
  | KeyError string
  | TypeError string
  | UnicodeDecodeError
  | IOError
  | JSONDecodeError

section \<open>Strings\<close>

text \<open>\<^verbatim>\<open>str.lower()\<close>, on the ASCII letters.\<close>

definition lower_char :: "char \<Rightarrow> char" where
  "lower_char c =
     (case map_of (zip ''ABCDEFGHIJKLMNOPQRSTUVWXYZ'' ''abcdefghijklmnopqrstuvwxyz'') c of
        Some l \<Rightarrow> l
      | None \<Rightarrow> c)"

definition lower :: "string \<Rightarrow> string" where
  "lower s = map lower_char s"

text \<open>\<^verbatim>\<open>s in t\<close> on strings: \<open>s\<close> occurs in \<open>t\<close> as a contiguous run.\<close>

fun starts_with :: "string \<Rightarrow> string \<Rightarrow> bool" where
  "starts_with t [] = True"
| "starts_with [] (x # s) = False"
| "starts_with (y # t) (x # s) = (x = y \<and> starts_with t s)"

fun str_in :: "string \<Rightarrow> string \<Rightarrow> bool" where
  "str_in s [] = (s = [])"
| "str_in s (c # t) = (starts_with (c # t) s \<or> str_in s t)"




section \<open>Dates in the format \<^verbatim>\<open>%Y-%m-%d\<close>\<close>

definition is_leap :: "nat \<Rightarrow> bool" where
  "is_leap y \<longleftrightarrow> y mod 4 = 0 \<and> (y mod 100 \<noteq> 0 \<or> y mod 400 = 0)"

definition days_in_month :: "nat \<Rightarrow> nat \<Rightarrow> nat" where
  "days_in_month y m =
     (if m = 2 then (if is_leap y then 29 else 28)
      else if m = 4 \<or> m = 6 \<or> m = 9 \<or> m = 11 then 30
      else 31)"



definition digit_val :: "char \<Rightarrow> nat option" where
  "digit_val c = map_of (zip ''0123456789'' [0, 1, 2, 3, 4, 5, 6, 7, 8, 9]) c"


text \<open>
  \<^verbatim>\<open>datetime.strptime(s, "%Y-%m-%d")\<close>. The library matches the text against
  four digits, a dash, a month, a dash and a day, where a month is \<^verbatim>\<open>1[0-2]|0[1-9]|[1-9]\<close>
  and a day is \<^verbatim>\<open>3[0-1]|[1-2]\d|0[1-9]|[1-9]| [1-9]\<close>; nothing may follow the day, and
  the three numbers must form a date of the calendar. Every failure is a
  \<^verbatim>\<open>ValueError\<close>. The result has no time of day.
\<close>

definition month_of :: "string \<Rightarrow> nat option" where
  "month_of txt =
     (case txt of
        [x] \<Rightarrow> (case digit_val x of Some n \<Rightarrow> if 1 \<le> n then Some n else None | None \<Rightarrow> None)
      | [x, y] \<Rightarrow>
          (case (digit_val x, digit_val y) of
             (Some a, Some b) \<Rightarrow>
               if a = 0 \<and> 1 \<le> b then Some b
               else if a = 1 \<and> b \<le> 2 then Some (10 + b)
               else None
           | _ \<Rightarrow> None)
      | _ \<Rightarrow> None)"

definition day_of :: "string \<Rightarrow> nat option" where
  "day_of txt =
     (case txt of
        [x] \<Rightarrow> (case digit_val x of Some n \<Rightarrow> if 1 \<le> n then Some n else None | None \<Rightarrow> None)
      | [x, y] \<Rightarrow>
          (case (digit_val x, digit_val y) of
             (Some a, Some b) \<Rightarrow>
               if a = 0 \<and> 1 \<le> b then Some b
               else if a = 1 \<or> a = 2 then Some (10 * a + b)
               else if a = 3 \<and> b \<le> 1 then Some (30 + b)
               else None
           | (None, Some b) \<Rightarrow> if x = CHR '' '' \<and> 1 \<le> b then Some b else None
           | _ \<Rightarrow> None)
      | _ \<Rightarrow> None)"

definition mk_date :: "nat \<Rightarrow> nat \<Rightarrow> nat \<Rightarrow> exn + datetime" where
  "mk_date y m d =
     (if y = 0 then Inl (ValueError ''year 0 is out of range'')
      else if days_in_month y m < d then Inl (ValueError ''day is out of range for month'')
      else Inr \<lparr>year = y, month = m, day = d, hour = 0, minute = 0, second = 0,
                microsecond = 0\<rparr>)"

definition no_match :: "exn + datetime" where
  "no_match = Inl (ValueError ''time data does not match format'')"

definition strptime :: "string \<Rightarrow> exn + datetime" where
  "strptime s =
     (case s of
        a # b # c # d # e # rest \<Rightarrow>
          (case (digit_val a, digit_val b, digit_val c, digit_val d) of
             (Some a', Some b', Some c', Some d') \<Rightarrow>
               if e \<noteq> CHR ''-'' then no_match
               else
                 (case dropWhile (\<lambda>x. x \<noteq> CHR ''-'') rest of
                    [] \<Rightarrow> no_match
                  | _ # dtxt \<Rightarrow>
                      (case (month_of (takeWhile (\<lambda>x. x \<noteq> CHR ''-'') rest), day_of dtxt) of
                         (Some m, Some dd) \<Rightarrow>
                           mk_date (1000 * a' + 100 * b' + 10 * c' + d') m dd
                       | _ \<Rightarrow> no_match))
           | _ \<Rightarrow> no_match)
      | _ \<Rightarrow> no_match)"









section \<open>Destination\<close>

text \<open>
  \<^verbatim>\<open>
  class Destination:
      def __init__(self, city, country, start_date, end_date, budget, activities):
          self.city = city
          ...
  \<close>
  An instance has the six attributes that \<^verbatim>\<open>__init__\<close> binds. \<open>extra\<close> holds the
  other entries of the instance dictionary: \<^verbatim>\<open>setattr\<close> creates one when it is given
  a name that the instance does not bind itself but finds on its class.
\<close>

record destination =
  city :: pyval
  country :: pyval
  start_date :: pyval
  end_date :: pyval
  budget :: pyval
  activities :: pyval
  extra :: "(string \<times> pyval) list"

definition Destination ::
  "pyval \<Rightarrow> pyval \<Rightarrow> pyval \<Rightarrow> pyval \<Rightarrow> pyval \<Rightarrow> pyval \<Rightarrow> destination" where
  "Destination c co s e b a =
     \<lparr>city = c, country = co, start_date = s, end_date = e, budget = b, activities = a,
      extra = []\<rparr>"

text \<open>The name that the interpreter prints for the type of a value.\<close>

fun type_name :: "pyval \<Rightarrow> string" where
  "type_name PNone = ''NoneType''"
| "type_name (PBool _) = ''bool''"
| "type_name (PInt _) = ''int''"
| "type_name (PFloat _) = ''float''"
| "type_name (PStr _) = ''str''"
| "type_name (PDatetime _) = ''datetime.datetime''"
| "type_name (PList _) = ''list''"
| "type_name (PDict _) = ''dict''"

definition no_attribute :: "pyval \<Rightarrow> string \<Rightarrow> exn" where
  "no_attribute v a =
     AttributeError ([CHR 0x27] @ type_name v @ [CHR 0x27] @ '' object has no attribute ''
                     @ [CHR 0x27] @ a @ [CHR 0x27])"

subsection \<open>Attribute lookup\<close>

definition field_names :: "string list" where
  "field_names = [''city'', ''country'', ''start_date'', ''end_date'', ''budget'', ''activities'']"

text \<open>The names bound in the body of the class.\<close>

definition class_names :: "string list" where
  "class_names = [''__init__'', ''update_details'', ''to_dict'', ''from_dict'', ''__str__'']"

text \<open>
  \<^verbatim>\<open>hasattr(self, k)\<close> holds when the instance dictionary binds \<open>k\<close>, when the class body
  binds it, or when the class inherits it from the builtin \<^verbatim>\<open>object\<close>. The inherited
  names are fixed by the interpreter, not by this module: they are the parameter
  \<open>inherited\<close>.
\<close>

definition hasattr :: "string list \<Rightarrow> destination \<Rightarrow> string \<Rightarrow> bool" where
  "hasattr inherited d k \<longleftrightarrow>
     k \<in> set field_names \<or> k \<in> set (map fst (extra d)) \<or> k \<in> set class_names \<or>
     k \<in> set inherited"

fun assoc_set :: "string \<Rightarrow> pyval \<Rightarrow> (string \<times> pyval) list \<Rightarrow> (string \<times> pyval) list" where
  "assoc_set k v [] = [(k, v)]"
| "assoc_set k v (p # ps) = (if fst p = k then (k, v) # ps else p # assoc_set k v ps)"

text \<open>
  \<^verbatim>\<open>setattr(self, k, v)\<close> for a name that \<^verbatim>\<open>hasattr\<close> has found: the value goes into
  the instance dictionary, as a field or as an entry that hides the attribute of the
  class. This is what \<^verbatim>\<open>object.__setattr__\<close> does for the fields, for the names of
  the class body and for the inherited methods; the three inherited data descriptors
  \<^verbatim>\<open>__class__\<close>, \<^verbatim>\<open>__dict__\<close> and \<^verbatim>\<open>__weakref__\<close>, which check or refuse the
  value instead, are not told apart from them.
\<close>

definition setattr :: "destination \<Rightarrow> string \<Rightarrow> pyval \<Rightarrow> destination" where
  "setattr d k v =
     (if k = ''city'' then d\<lparr>city := v\<rparr>
      else if k = ''country'' then d\<lparr>country := v\<rparr>
      else if k = ''start_date'' then d\<lparr>start_date := v\<rparr>
      else if k = ''end_date'' then d\<lparr>end_date := v\<rparr>
      else if k = ''budget'' then d\<lparr>budget := v\<rparr>
      else if k = ''activities'' then d\<lparr>activities := v\<rparr>
      else d\<lparr>extra := assoc_set k v (extra d)\<rparr>)"


subsection \<open>\<^verbatim>\<open>update_details\<close>\<close>

text \<open>
  \<^verbatim>\<open>
  def update_details(self, **kwargs):
      for k, v in kwargs.items():
          if v is None:
              continue
          if hasattr(self,k):
              setattr(self,k,v)
          else:
              raise AttributeError(f"Attribute {k} not found.")
  \<close>
  The keyword arguments are visited in the order in which they were written. The object
  is changed in place, so the result is the object as the call leaves it together with
  the exception, if one was raised.
\<close>

definition unknown_field :: "string \<Rightarrow> exn" where
  "unknown_field k = AttributeError (''Attribute '' @ k @ '' not found.'')"

fun update_details ::
  "string list \<Rightarrow> destination \<Rightarrow> (string \<times> pyval) list \<Rightarrow> destination \<times> exn option" where
  "update_details inherited d [] = (d, None)"
| "update_details inherited d ((k, v) # kwargs) =
     (if v = PNone then update_details inherited d kwargs
      else if hasattr inherited d k then update_details inherited (setattr d k v) kwargs
      else (d, Some (unknown_field k)))"

text \<open>The names that a list of keyword arguments gives a value other than \<^verbatim>\<open>None\<close>.\<close>

definition supplied :: "(string \<times> pyval) list \<Rightarrow> string list" where
  "supplied kwargs = map fst (filter (\<lambda>p. snd p \<noteq> PNone) kwargs)"

subsection \<open>Serialisation\<close>



text \<open>
  \<^verbatim>\<open>
  @staticmethod
  def from_dict(d):
      return Destination(d["city"], d["country"],
                         datetime.strptime(d["start_date"], DATE_FMT),
                         datetime.strptime(d["end_date"], DATE_FMT),
                         d["budget"], d["activities"])
  \<close>
  \<^verbatim>\<open>d[k]\<close> with a string \<open>k\<close> is a \<^verbatim>\<open>KeyError\<close> on a dictionary without the key and
  a \<^verbatim>\<open>TypeError\<close> on every other value; \<^verbatim>\<open>strptime\<close> is a \<^verbatim>\<open>TypeError\<close> on a value
  that is not a string. The arguments are evaluated from left to right.
\<close>

definition subscript :: "pyval \<Rightarrow> string \<Rightarrow> exn + pyval" where
  "subscript d k =
     (case d of
        PDict kvs \<Rightarrow> (case map_of kvs k of Some v \<Rightarrow> Inr v | None \<Rightarrow> Inl (KeyError k))
      | _ \<Rightarrow> Inl (TypeError (type_name d @ '' cannot be indexed by str'')))"

definition py_strptime :: "pyval \<Rightarrow> exn + pyval" where
  "py_strptime v =
     (case v of
        PStr s \<Rightarrow> (case strptime s of Inl e \<Rightarrow> Inl e | Inr t \<Rightarrow> Inr (PDatetime t))
      | _ \<Rightarrow> Inl (TypeError (''strptime() argument 1 must be str, not '' @ type_name v)))"

definition from_dict :: "pyval \<Rightarrow> exn + destination" where
  "from_dict d =
     (case subscript d ''city'' of Inl e \<Rightarrow> Inl e | Inr c \<Rightarrow>
     (case subscript d ''country'' of Inl e \<Rightarrow> Inl e | Inr co \<Rightarrow>
     (case subscript d ''start_date'' of Inl e \<Rightarrow> Inl e | Inr sv \<Rightarrow>
     (case py_strptime sv of Inl e \<Rightarrow> Inl e | Inr s \<Rightarrow>
     (case subscript d ''end_date'' of Inl e \<Rightarrow> Inl e | Inr ev \<Rightarrow>
     (case py_strptime ev of Inl e \<Rightarrow> Inl e | Inr e \<Rightarrow>
     (case subscript d ''budget'' of Inl e \<Rightarrow> Inl e | Inr b \<Rightarrow>
     (case subscript d ''activities'' of Inl e \<Rightarrow> Inl e | Inr a \<Rightarrow>
        Inr (Destination c co s e b a)))))))))"

subsection \<open>Display\<close>






section \<open>ItineraryManager\<close>

text \<open>
  The collection is a list of values. In the program it is a list of references; every
  entry that \<^verbatim>\<open>add_flow\<close> and \<^verbatim>\<open>load_from_file\<close> put there is a new object, and
  the model takes the entries to be distinct objects.
\<close>

record manager =
  destinations :: "destination list"

text \<open>
  What the methods print, one constructor for each \<^verbatim>\<open>print\<close> statement, with the
  values that the statement interpolates.
\<close>

datatype message =
    Added
  | NoDestinationFound string
  | Removed string
  | UpdatedDetails destination
  | DestinationNotFound
  | ErrorLoadingFile exn
  | InvalidStartDateFormat
  | InvalidEndDateFormat
  | InvalidBudget exn
  | NoActivity
  | StartAfterEnd


text \<open>\<^verbatim>\<open>v.lower()\<close>: only a string has the method.\<close>

definition py_lower :: "pyval \<Rightarrow> exn + string" where
  "py_lower v = (case v of PStr s \<Rightarrow> Inr (lower s) | _ \<Rightarrow> Inl (no_attribute v ''lower''))"

subsection \<open>\<^verbatim>\<open>remove_destination\<close>\<close>



subsection \<open>\<^verbatim>\<open>update_destination\<close>\<close>




subsection \<open>\<^verbatim>\<open>search_destination\<close>\<close>

text \<open>
  \<^verbatim>\<open>
  def search_destination(self, s:str):
      s = s.lower()
      res = [d for d in self.destinations
             if s in d.city.lower() or s in d.country.lower()
                or any(s in a.lower() for a in d.activities)]
      return res
  \<close>
  \<^verbatim>\<open>or\<close> and \<^verbatim>\<open>any\<close> stop at the first true operand. Iterating a list gives its
  entries, a dictionary its keys, a string its characters; the other values are not
  iterable.
\<close>

definition iterate :: "pyval \<Rightarrow> exn + pyval list" where
  "iterate v =
     (case v of
        PList xs \<Rightarrow> Inr xs
      | PDict kvs \<Rightarrow> Inr (map (\<lambda>p. PStr (fst p)) kvs)
      | PStr s \<Rightarrow> Inr (map (\<lambda>c. PStr [c]) s)
      | _ \<Rightarrow> Inl (TypeError ([CHR 0x27] @ type_name v @ [CHR 0x27]
                              @ '' object is not iterable'')))"

fun any_lower_contains :: "string \<Rightarrow> pyval list \<Rightarrow> exn + bool" where
  "any_lower_contains s [] = Inr False"
| "any_lower_contains s (a # as) =
     (case py_lower a of
        Inl e \<Rightarrow> Inl e
      | Inr l \<Rightarrow> if str_in s l then Inr True else any_lower_contains s as)"

definition matches :: "string \<Rightarrow> destination \<Rightarrow> exn + bool" where
  "matches s d =
     (case py_lower (city d) of Inl e \<Rightarrow> Inl e | Inr c \<Rightarrow>
        if str_in s c then Inr True
        else
          (case py_lower (country d) of Inl e \<Rightarrow> Inl e | Inr co \<Rightarrow>
             if str_in s co then Inr True
             else
               (case iterate (activities d) of
                  Inl e \<Rightarrow> Inl e
                | Inr as \<Rightarrow> any_lower_contains s as)))"

fun select_matches :: "string \<Rightarrow> destination list \<Rightarrow> exn + destination list" where
  "select_matches s [] = Inr []"
| "select_matches s (d # ds) =
     (case matches s d of
        Inl e \<Rightarrow> Inl e
      | Inr b \<Rightarrow>
          (case select_matches s ds of
             Inl e \<Rightarrow> Inl e
           | Inr r \<Rightarrow> Inr (if b then d # r else r)))"

text \<open>The method assigns to nothing of the manager: it hands the manager back as it got it.\<close>

definition search_destination :: "manager \<Rightarrow> string \<Rightarrow> manager \<times> (exn + destination list)" where
  "search_destination m s = (m, select_matches (lower s) (destinations m))"




subsection \<open>\<^verbatim>\<open>load_from_file\<close>\<close>

text \<open>
  \<^verbatim>\<open>
  def load_from_file(self, filename="itineraries.json"):
      if not os.path.exists(filename):
          self.destinations = []
          return
      try:
          with open(filename, "r", encoding="utf-8") as f:
              data = json.load(f)
          self.destinations = [Destination.from_dict(d) for d in data]
      except (IOError, json.JSONDecodeError) as e:
          print(f"Error loading file: {e}")
          self.destinations = []
  \<close>
  What the file system and \<^verbatim>\<open>json.load\<close> answer for a path is the state of the file:
  no file; a file that cannot be opened or read (\<^verbatim>\<open>IOError\<close>); bytes that are not
  UTF-8 (\<^verbatim>\<open>UnicodeDecodeError\<close>, a \<^verbatim>\<open>ValueError\<close>); text that is not JSON
  (\<^verbatim>\<open>JSONDecodeError\<close>); or a JSON text, with the value it denotes.
\<close>

datatype file_state = NoFile | Unreadable | NotUtf8 | NotJson | Json pyval

fun from_dict_all :: "pyval list \<Rightarrow> exn + destination list" where
  "from_dict_all [] = Inr []"
| "from_dict_all (v # vs) =
     (case from_dict v of
        Inl e \<Rightarrow> Inl e
      | Inr d \<Rightarrow>
          (case from_dict_all vs of
             Inl e \<Rightarrow> Inl e
           | Inr ds \<Rightarrow> Inr (d # ds)))"

text \<open>
  The third component is the exception that leaves the method, if any: only
  \<^verbatim>\<open>IOError\<close> and \<^verbatim>\<open>JSONDecodeError\<close> are caught.
\<close>

definition load_from_file ::
  "(string \<Rightarrow> file_state) \<Rightarrow> manager \<Rightarrow> string \<Rightarrow> manager \<times> message list \<times> exn option" where
  "load_from_file fs m filename =
     (case fs filename of
        NoFile \<Rightarrow> (m\<lparr>destinations := []\<rparr>, [], None)
      | Unreadable \<Rightarrow> (m\<lparr>destinations := []\<rparr>, [ErrorLoadingFile IOError], None)
      | NotJson \<Rightarrow> (m\<lparr>destinations := []\<rparr>, [ErrorLoadingFile JSONDecodeError], None)
      | NotUtf8 \<Rightarrow> (m, [], Some UnicodeDecodeError)
      | Json data \<Rightarrow>
          (case iterate data of
             Inl e \<Rightarrow> (m, [], Some e)
           | Inr vs \<Rightarrow>
               (case from_dict_all vs of
                  Inl e \<Rightarrow> (m, [], Some e)
                | Inr ds \<Rightarrow> (m\<lparr>destinations := ds\<rparr>, [], None))))"

section \<open>Budget parsing\<close>

text \<open>
  \<^verbatim>\<open>
  def check_positive(s:str)->float:
      v = float(s)
      if v<= 0:
          raise ValueError('Budget Value must be positive.')
      return v
  \<close>
  The builtin \<^verbatim>\<open>float\<close> is a parameter: \<open>None\<close> where it raises \<^verbatim>\<open>ValueError\<close>.
\<close>

definition check_positive :: "(string \<Rightarrow> pyfloat option) \<Rightarrow> string \<Rightarrow> exn + pyfloat" where
  "check_positive float s =
     (case float s of
        None \<Rightarrow> Inl (ValueError ''could not convert string to float'')
      | Some v \<Rightarrow>
          if float_le_zero v then Inl (ValueError ''Budget Value must be positive.'')
          else Inr v)"

section \<open>The flow that adds a destination\<close>




section \<open>The data model of the specification\<close>







section \<open>Sample data\<close>

text \<open>A \<^verbatim>\<open>float\<close> that knows four texts, and the trips of the examples.\<close>

definition float0 :: "string \<Rightarrow> pyfloat option" where
  "float0 s =
     (if s = ''0.01'' then Some (Finite (1 / 100))
      else if s = ''0'' then Some (Finite 0)
      else if s = ''-5'' then Some (Finite (- 5))
      else if s = ''2000'' then Some (Finite 2000)
      else None)"

definition june :: "nat \<Rightarrow> datetime" where
  "june d = \<lparr>year = 2025, month = 6, day = d, hour = 0, minute = 0, second = 0,
             microsecond = 0\<rparr>"

definition paris :: destination where
  "paris = Destination (PStr ''Paris'') (PStr ''France'') (PDatetime (june 1))
             (PDatetime (june 10)) (PInt 2000) (PList [PStr ''museum'', PStr ''food''])"


text \<open>The content \<^verbatim>\<open>[{"city": "Paris"}]\<close> of a file: JSON, but not a record of a trip.\<close>

definition one_bad_record :: pyval where
  "one_bad_record = PList [PDict [(''city'', PStr ''Paris'')]]"


section \<open>Properties\<close>

subsection \<open>Loading\<close>

lemma load_from_file_caught:
  "fs f = Unreadable \<or> fs f = NotJson \<Longrightarrow>
   \<exists>e. load_from_file fs m f = (m\<lparr>destinations := []\<rparr>, [ErrorLoadingFile e], None)"
  by (auto simp: load_from_file_def)

text \<open>
  C1. Loading a file whose content is unreadable or structurally invalid should empty the
  collection, report a diagnostic and raise nothing. The method does so for a file that
  cannot be read and for text that is not JSON. For the JSON text
  \<^verbatim>\<open>[{"city": "Paris"}]\<close> the \<^verbatim>\<open>KeyError\<close> of \<^verbatim>\<open>from_dict\<close> is not among the
  caught exceptions: it leaves the method, nothing is reported and the collection keeps
  its entries.
\<close>

theorem load_from_file_bad_record:
  "load_from_file (\<lambda>_. Json one_bad_record) \<lparr>destinations = [paris]\<rparr> ''itineraries.json''
   = (\<lparr>destinations = [paris]\<rparr>, [], Some (KeyError ''country''))"
  by (simp add: load_from_file_def one_bad_record_def iterate_def from_dict_def subscript_def)

subsection \<open>Updating the fields of a destination\<close>

lemma keys_assoc_set: "fst ` set (assoc_set k v ps) = insert k (fst ` set ps)"
  by (induction ps) auto

lemma hasattr_setattr: "hasattr inh d k \<Longrightarrow> hasattr inh (setattr d k v) k' = hasattr inh d k'"
  by (auto simp: hasattr_def setattr_def keys_assoc_set)



lemma supplied_Nil [simp]: "supplied [] = []"
  by (simp add: supplied_def)


lemma update_details_ok_hasattr:
  "update_details inh d kw = (d', None) \<Longrightarrow> hasattr inh d' k = hasattr inh d k"
proof (induction kw arbitrary: d)
  case Nil
  then show ?case by simp
next
  case (Cons p kw)
  obtain n v where p: "p = (n, v)" by (cases p)
  show ?case
  proof (cases "v = PNone")
    case True
    with Cons p show ?thesis by simp
  next
    case False
    with Cons.prems p have h: "hasattr inh d n"
      and u: "update_details inh (setattr d n v) kw = (d', None)"
      by (auto split: if_splits)
    from Cons.IH [OF u] hasattr_setattr [OF h] show ?thesis by simp
  qed
qed














subsection \<open>Updating through the manager\<close>







subsection \<open>Removing\<close>





subsection \<open>Serialisation\<close>













subsection \<open>Budget parsing\<close>

text \<open>
  C9. The budget parser fails, with a \<^verbatim>\<open>ValueError\<close>, exactly when the text does not
  parse as a number or parses to a value that is at most zero; for a text that parses to
  a strictly positive number it returns that number.
\<close>

theorem check_positive_spec:
  "((\<exists>e. check_positive float s = Inl e) \<longleftrightarrow>
      (float s = None \<or> (\<exists>v. float s = Some v \<and> float_le_zero v))) \<and>
   (\<forall>e. check_positive float s = Inl e \<longrightarrow> (\<exists>msg. e = ValueError msg)) \<and>
   (\<forall>v. float s = Some v \<and> float_positive v \<longrightarrow> check_positive float s = Inr v)"
proof -
  have pos: "\<not> float_le_zero v" if "float_positive v" for v
    using that by (cases v) auto
  show ?thesis
    by (auto simp: check_positive_def pos split: option.splits)
qed

theorem check_positive_spec_witness:
  "check_positive float0 ''0.01'' = Inr (Finite (1 / 100)) \<and>
   (\<exists>msg. check_positive float0 ''0'' = Inl (ValueError msg)) \<and>
   (\<exists>msg. check_positive float0 ''-5'' = Inl (ValueError msg)) \<and>
   (\<exists>msg. check_positive float0 ''abc'' = Inl (ValueError msg))"
proof -
  have "float0 ''0.01'' = Some (Finite (1 / 100))" "float_positive (Finite (1 / 100))"
    by (simp_all add: float0_def)
  then have a: "check_positive float0 ''0.01'' = Inr (Finite (1 / 100))"
    using check_positive_spec [of float0 "''0.01''"] by blast
  have fails: "\<exists>msg. check_positive float0 s = Inl (ValueError msg)"
    if "float0 s = None \<or> (\<exists>v. float0 s = Some v \<and> float_le_zero v)" for s
    using that check_positive_spec [of float0 s] by blast
  have b: "\<exists>msg. check_positive float0 ''0'' = Inl (ValueError msg)"
    by (rule fails) (simp add: float0_def)
  have c: "\<exists>msg. check_positive float0 ''-5'' = Inl (ValueError msg)"
    by (rule fails) (simp add: float0_def)
  have d: "\<exists>msg. check_positive float0 ''abc'' = Inl (ValueError msg)"
    by (rule fails) (simp add: float0_def)
  from a b c d show ?thesis by blast
qed

subsection \<open>The flow that adds a destination\<close>








subsection \<open>Search\<close>












text \<open>
  C10. A search leaves the collection of the manager as it was: the same destinations
  in the same order, with the same fields, whatever the term and whether or not the
  search raises.
\<close>

theorem search_destination_frame:
  "fst (search_destination m s) = m \<and>
   destinations (fst (search_destination m s)) = destinations m"
  by (simp add: search_destination_def)

end
